theory Spec2Isabelle
  imports Complex_Main
begin

section \<open>Python values\<close>

text \<open>
  A Python \<open>str\<close> is a sequence of Unicode code points: \<open>len\<close> and slicing count code
  points, and the source's literals are Chinese, so a string is a list of code points.
  \<open>ascii\<close> embeds an ASCII literal.
\<close>

type_synonym pystr = "nat list"

definition ascii :: "string \<Rightarrow> pystr" where
  "ascii s = map of_char s"

text \<open>\<open>sep.join(parts)\<close>.\<close>

fun py_join :: "pystr \<Rightarrow> pystr list \<Rightarrow> pystr" where
  "py_join sep [] = []"
| "py_join sep [x] = x"
| "py_join sep (x # y # ys) = x @ sep @ py_join sep (y # ys)"

text \<open>\<open>xs[:n]\<close> for any integer \<open>n\<close>: a negative bound counts from the end.\<close>

definition py_slice_to :: "'a list \<Rightarrow> int \<Rightarrow> 'a list" where
  "py_slice_to xs n =
     (if 0 \<le> n then take (nat n) xs else take (length xs - nat (- n)) xs)"

text \<open>
  Exceptions are values. \<open>exn\<close> stands for the instances of \<open>Exception\<close>, the ones an
  \<open>except Exception\<close> clause catches; \<open>exn_str e\<close> is \<open>str(e)\<close>.
  \<open>VectorStoreException\<close> is the class of \<open>core/exceptions.py\<close>; its constructor passes
  the message on to \<open>Exception\<close>, so that \<open>str(e)\<close> is the message.
\<close>

datatype exc_class =
    NameError | IndexError | KeyError | TypeError | ValueError | ValidationError
  | VectorStoreException | OtherException

datatype exn = Exn (exn_class: exc_class) (exn_str: pystr)

text \<open>The scalar values a metadata dictionary holds.\<close>

datatype pyval = PNone | PBool bool | PInt int | PFloat real | PStr pystr

type_synonym pydict = "(pystr \<times> pyval) list"

text \<open>\<open>d[key]\<close> raises \<open>KeyError\<close>, whose \<open>str\<close> is the \<open>repr\<close> of the key.\<close>

definition dict_getitem :: "pydict \<Rightarrow> pystr \<Rightarrow> exn + pyval" where
  "dict_getitem d k =
     (case map_of d k of
        None \<Rightarrow> Inl (Exn KeyError (ascii [CHR 0x27] @ k @ ascii [CHR 0x27]))
      | Some v \<Rightarrow> Inr v)"

text \<open>\<open>d.get(key, default)\<close>.\<close>

definition dict_get :: "pydict \<Rightarrow> pystr \<Rightarrow> pyval \<Rightarrow> pyval" where
  "dict_get d k dflt = (case map_of d k of None \<Rightarrow> dflt | Some v \<Rightarrow> v)"

text \<open>\<open>xs[0]\<close>.\<close>

definition py_first :: "'a list \<Rightarrow> exn + 'a" where
  "py_first xs =
     (case xs of
        [] \<Rightarrow> Inl (Exn IndexError (ascii ''list index out of range''))
      | x # _ \<Rightarrow> Inr x)"

text \<open>\<open>xs[i]\<close> for an index \<open>i\<close> that \<open>enumerate\<close> produced (never negative).\<close>

definition py_index :: "'a list \<Rightarrow> nat \<Rightarrow> exn + 'a" where
  "py_index xs i =
     (if i < length xs then Inr (xs ! i)
      else Inl (Exn IndexError (ascii ''list index out of range'')))"

text \<open>Sequencing: the first exception ends the evaluation.\<close>

definition bind_exn :: "exn + 'a \<Rightarrow> ('a \<Rightarrow> exn + 'b) \<Rightarrow> exn + 'b" where
  "bind_exn m f = (case m of Inl e \<Rightarrow> Inl e | Inr x \<Rightarrow> f x)"

section \<open>The data model (core/models.py)\<close>

datatype ContentType =
    ACADEMIC_PAPER | BLOG_POST | NEWS_ARTICLE | SOCIAL_POST | TECHNICAL_REPORT
  | CONFERENCE_PAPER

fun ContentType_value :: "ContentType \<Rightarrow> pystr" where
  "ContentType_value ACADEMIC_PAPER = ascii ''academic_paper''"
| "ContentType_value BLOG_POST = ascii ''blog_post''"
| "ContentType_value NEWS_ARTICLE = ascii ''news_article''"
| "ContentType_value SOCIAL_POST = ascii ''social_post''"
| "ContentType_value TECHNICAL_REPORT = ascii ''technical_report''"
| "ContentType_value CONFERENCE_PAPER = ascii ''conference_paper''"

text \<open>\<open>ContentType(v)\<close>: the member with that value, as pydantic looks it up.\<close>

definition ContentType_of_value :: "pystr \<Rightarrow> ContentType option" where
  "ContentType_of_value v =
     find (\<lambda>t. ContentType_value t = v)
       [ACADEMIC_PAPER, BLOG_POST, NEWS_ARTICLE, SOCIAL_POST, TECHNICAL_REPORT,
        CONFERENCE_PAPER]"

datatype ProcessingStatus = PENDING | PROCESSING | COMPLETED | FAILED | SKIPPED

datatype QualityLevel = HIGH | MEDIUM | LOW | VERY_LOW

text \<open>A naive \<open>datetime\<close>, as microseconds since the epoch.\<close>

datatype datetime = Datetime (micros: int)

text \<open>
  \<open>ContentItem\<close>. Floats are modelled as reals. The field \<open>id\<close> is \<open>item_id\<close> here.
\<close>

record ContentItem =
  item_id :: pystr
  title :: pystr
  content :: pystr
  summary :: "pystr option"
  url :: pystr
  content_type :: ContentType
  source_id :: pystr
  source_name :: pystr
  authors :: "pystr list"
  tags :: "pystr list"
  categories :: "pystr list"
  language :: pystr
  published_at :: datetime
  collected_at :: datetime
  processed_at :: "datetime option"
  quality_score :: real
  quality_level :: "QualityLevel option"
  relevance_score :: real
  importance_score :: real
  processing_status :: ProcessingStatus
  error_message :: "pystr option"
  metadata :: pydict
  raw_data :: "pydict option"

text \<open>
  The validator \<open>set_quality_level(cls, v, values)\<close>. \<open>v\<close> is the level the caller gave
  (\<open>None\<close> when none was given); the second argument is \<open>values.get('quality_score')\<close>:
  a field that failed its own validation is missing from \<open>values\<close>.
\<close>

definition set_quality_level ::
  "QualityLevel option \<Rightarrow> real option \<Rightarrow> QualityLevel option" where
  "set_quality_level v values_quality_score =
     (case (v, values_quality_score) of
        (None, Some score) \<Rightarrow>
          if score \<ge> 0.8 then Some HIGH
          else if score \<ge> 0.6 then Some MEDIUM
          else if score \<ge> 0.3 then Some LOW
          else Some VERY_LOW
      | _ \<Rightarrow> v)"

text \<open>
  The keyword arguments of \<open>ContentItem(...)\<close>: a field with a default is optional.
  \<open>content_type\<close> is given by value (\<open>ContentType\<close> is a \<open>str\<close> enum, a member is its
  value).
\<close>

record ContentItem_kwargs =
  kw_id :: "pystr option"
  kw_title :: pystr
  kw_content :: pystr
  kw_summary :: "pystr option"
  kw_url :: pystr
  kw_content_type :: pystr
  kw_source_id :: pystr
  kw_source_name :: pystr
  kw_authors :: "pystr list option"
  kw_tags :: "pystr list option"
  kw_categories :: "pystr list option"
  kw_language :: "pystr option"
  kw_published_at :: datetime
  kw_collected_at :: "datetime option"
  kw_processed_at :: "datetime option"
  kw_quality_score :: "real option"
  kw_quality_level :: "QualityLevel option"
  kw_relevance_score :: "real option"
  kw_importance_score :: "real option"
  kw_processing_status :: "ProcessingStatus option"
  kw_error_message :: "pystr option"
  kw_metadata :: "pydict option"
  kw_raw_data :: "pydict option"

text \<open>\<open>Field(default=d, ge=0.0, le=1.0)\<close>: the validated value, if it is in range.\<close>

definition unit_interval_field :: "real option \<Rightarrow> real \<Rightarrow> real option" where
  "unit_interval_field v dflt =
     (let x = (case v of None \<Rightarrow> dflt | Some y \<Rightarrow> y)
      in if 0 \<le> x \<and> x \<le> 1 then Some x else None)"

definition validation_error :: exn where
  "validation_error = Exn ValidationError (ascii ''validation error for ContentItem'')"

text \<open>A value pydantic rejects makes the construction fail.\<close>

definition validated :: "'a option \<Rightarrow> exn + 'a" where
  "validated v = (case v of None \<Rightarrow> Inl validation_error | Some x \<Rightarrow> Inr x)"

text \<open>
  \<open>ContentItem(**kwargs)\<close>: pydantic validates the fields in the order of their
  declaration and raises one \<open>ValidationError\<close> if any failed. \<open>uuid\<close> and \<open>now\<close> are
  what \<open>uuid4()\<close> and \<open>datetime.utcnow()\<close> return in this call.
\<close>

definition ContentItem_init ::
  "pystr \<Rightarrow> datetime \<Rightarrow> ContentItem_kwargs \<Rightarrow> exn + ContentItem" where
  "ContentItem_init uuid now kw =
     (let ctype = ContentType_of_value (kw_content_type kw);
          qscore = unit_interval_field (kw_quality_score kw) 0.0;
          qlevel = set_quality_level (kw_quality_level kw) qscore;
          rscore = unit_interval_field (kw_relevance_score kw) 0.0;
          iscore = unit_interval_field (kw_importance_score kw) 0.0
      in case (ctype, qscore, rscore, iscore) of
           (Some ct, Some q, Some r, Some i) \<Rightarrow>
             Inr \<lparr> item_id = (case kw_id kw of None \<Rightarrow> uuid | Some x \<Rightarrow> x),
                   title = kw_title kw,
                   content = kw_content kw,
                   summary = kw_summary kw,
                   url = kw_url kw,
                   content_type = ct,
                   source_id = kw_source_id kw,
                   source_name = kw_source_name kw,
                   authors = (case kw_authors kw of None \<Rightarrow> [] | Some x \<Rightarrow> x),
                   tags = (case kw_tags kw of None \<Rightarrow> [] | Some x \<Rightarrow> x),
                   categories = (case kw_categories kw of None \<Rightarrow> [] | Some x \<Rightarrow> x),
                   language = (case kw_language kw of None \<Rightarrow> ascii ''en'' | Some x \<Rightarrow> x),
                   published_at = kw_published_at kw,
                   collected_at = (case kw_collected_at kw of None \<Rightarrow> now | Some x \<Rightarrow> x),
                   processed_at = kw_processed_at kw,
                   quality_score = q,
                   quality_level = qlevel,
                   relevance_score = r,
                   importance_score = i,
                   processing_status =
                     (case kw_processing_status kw of None \<Rightarrow> PENDING | Some x \<Rightarrow> x),
                   error_message = kw_error_message kw,
                   metadata = (case kw_metadata kw of None \<Rightarrow> [] | Some x \<Rightarrow> x),
                   raw_data = kw_raw_data kw \<rparr>
         | _ \<Rightarrow> Inl validation_error)"

text \<open>
  \<open>item.quality_score = v\<close>: the model class sets no \<open>validate_assignment\<close>, so an
  assignment stores the value and runs no validator.
\<close>

definition assign_quality_score :: "ContentItem \<Rightarrow> real \<Rightarrow> ContentItem" where
  "assign_quality_score item v = item\<lparr>quality_score := v\<rparr>"

text \<open>The bucketing of the specification, as a function of the score alone.\<close>

definition quality_bucket :: "real \<Rightarrow> QualityLevel" where
  "quality_bucket score =
     (if score \<ge> 0.8 then HIGH
      else if score \<ge> 0.6 then MEDIUM
      else if score \<ge> 0.3 then LOW
      else VERY_LOW)"

section \<open>The text projector (tools/storage/vector_store.py)\<close>

definition newline :: pystr where
  "newline = [0x0A]"

definition authors_label :: pystr where
  "authors_label = [0x4F5C, 0x8005, 0x3A, 0x20]"

definition tags_label :: pystr where
  "tags_label = [0x6807, 0x7B7E, 0x3A, 0x20]"

text \<open>\<open>_prepare_text_for_embedding\<close>: the list \<open>text_parts\<close> grows by \<open>append\<close>.\<close>

definition prepare_text_for_embedding :: "ContentItem \<Rightarrow> pystr" where
  "prepare_text_for_embedding c =
     (let text_parts = [title c];
          text_parts =
            (case summary c of
               None \<Rightarrow> text_parts
             | Some s \<Rightarrow> if s \<noteq> [] then text_parts @ [s] else text_parts);
          text_parts =
            (if content c \<noteq> [] then text_parts @ [py_slice_to (content c) 1000]
             else text_parts);
          text_parts =
            (if authors c \<noteq> []
             then text_parts @ [authors_label @ py_join (ascii '', '') (authors c)]
             else text_parts);
          text_parts =
            (if tags c \<noteq> []
             then text_parts @ [tags_label @ py_join (ascii '', '') (tags c)]
             else text_parts)
      in py_join newline text_parts)"

text \<open>
  The composition the specification describes. Parts joined with a separator: the first
  part, then every further part behind a separator.
\<close>

definition joined_with :: "pystr \<Rightarrow> pystr list \<Rightarrow> pystr" where
  "joined_with sep parts =
     (case parts of [] \<Rightarrow> [] | p # ps \<Rightarrow> p @ concat (map (\<lambda>q. sep @ q) ps))"

text \<open>Five parts in a fixed order, each optional part a line or nothing.\<close>

definition summary_part :: "ContentItem \<Rightarrow> pystr list" where
  "summary_part c = (case summary c of Some s \<Rightarrow> (if s = [] then [] else [s]) | None \<Rightarrow> [])"

definition body_part :: "ContentItem \<Rightarrow> pystr list" where
  "body_part c = (if content c = [] then [] else [take 1000 (content c)])"

definition authors_part :: "ContentItem \<Rightarrow> pystr list" where
  "authors_part c =
     (if authors c = [] then []
      else [[0x4F5C, 0x8005, 0x3A, 0x20] @ joined_with [0x2C, 0x20] (authors c)])"

definition tags_part :: "ContentItem \<Rightarrow> pystr list" where
  "tags_part c =
     (if tags c = [] then []
      else [[0x6807, 0x7B7E, 0x3A, 0x20] @ joined_with [0x2C, 0x20] (tags c)])"

definition project_spec :: "ContentItem \<Rightarrow> pystr" where
  "project_spec c =
     joined_with [0x0A]
       (title c # summary_part c @ body_part c @ authors_part c @ tags_part c)"

section \<open>The collaborators of the vector store tool\<close>

type_synonym embedding = "real list"

text \<open>What \<open>collection.get\<close> and \<open>collection.query\<close> return, key by key.\<close>

record get_result =
  get_ids :: "pystr list"
  get_documents :: "pystr list"
  get_metadatas :: "pydict list"

record query_result =
  query_ids :: "pystr list list"
  query_documents :: "pystr list list"
  query_metadatas :: "pydict list list"
  query_distances :: "real list list"

text \<open>
  The Chroma collection is an external library: the tool is modelled over any
  collection, given by its five operations on a state \<open>'s\<close>. A write returns the new
  state, also when it raises.
\<close>

record 's collection_ops =
  coll_add ::
    "'s \<Rightarrow> pystr list \<Rightarrow> embedding list \<Rightarrow> pystr list \<Rightarrow> pydict list \<Rightarrow> (exn + unit) \<times> 's"
  coll_get :: "'s \<Rightarrow> pystr list \<Rightarrow> exn + get_result"
  coll_query :: "'s \<Rightarrow> embedding list \<Rightarrow> int \<Rightarrow> pydict option \<Rightarrow> exn + query_result"
  coll_delete :: "'s \<Rightarrow> pystr list \<Rightarrow> (exn + unit) \<times> 's"
  coll_count :: "'s \<Rightarrow> int"

text \<open>
  The tool object: its collection, \<open>embedding_model.encode(text).tolist()\<close>, and the
  library functions the methods call (\<open>datetime.isoformat\<close>, \<open>json.dumps\<close> on a list of
  strings, \<open>json.loads\<close> of such a text).
\<close>

record 's tool =
  collection :: "'s collection_ops"
  encode :: "pystr \<Rightarrow> exn + embedding"
  isoformat :: "datetime \<Rightarrow> pystr"
  json_dumps :: "pystr list \<Rightarrow> pystr"
  json_loads :: "pystr \<Rightarrow> exn + pystr list"

section \<open>The vector store tool (tools/storage/vector_store.py)\<close>

definition store_failed :: pystr where
  "store_failed = [0x5B58, 0x50A8, 0x5185, 0x5BB9, 0x5931, 0x8D25, 0x3A, 0x20]"

definition retrieve_failed :: pystr where
  "retrieve_failed = [0x68C0, 0x7D22, 0x5185, 0x5BB9, 0x5931, 0x8D25, 0x3A, 0x20]"

definition search_failed :: pystr where
  "search_failed = [0x641C, 0x7D22, 0x5931, 0x8D25, 0x3A, 0x20]"

definition similar_failed :: pystr where
  "similar_failed =
     [0x76F8, 0x4F3C, 0x5185, 0x5BB9, 0x641C, 0x7D22, 0x5931, 0x8D25, 0x3A, 0x20]"

text \<open>\<open>raise VectorStoreException(f"{label}{str(e)}")\<close> in an \<open>except Exception as e\<close>.\<close>

definition wrap :: "pystr \<Rightarrow> exn \<Rightarrow> exn" where
  "wrap label e = Exn VectorStoreException (label @ exn_str e)"

subsection \<open>store_content\<close>

definition store_metadata :: "'s tool \<Rightarrow> ContentItem \<Rightarrow> pydict" where
  "store_metadata t c =
     [(ascii ''title'', PStr (title c)),
      (ascii ''source_name'', PStr (source_name c)),
      (ascii ''content_type'', PStr (ContentType_value (content_type c))),
      (ascii ''published_at'', PStr (isoformat t (published_at c))),
      (ascii ''quality_score'', PFloat (quality_score c)),
      (ascii ''url'', PStr (url c)),
      (ascii ''authors'', PStr (json_dumps t (authors c))),
      (ascii ''categories'', PStr (json_dumps t (categories c))),
      (ascii ''tags'', PStr (json_dumps t (tags c)))]"

text \<open>The body of the \<open>try\<close>.\<close>

definition store_content_try :: "'s tool \<Rightarrow> 's \<Rightarrow> ContentItem \<Rightarrow> (exn + pystr) \<times> 's" where
  "store_content_try t s c =
     (let text_to_embed = prepare_text_for_embedding c
      in case encode t text_to_embed of
           Inl e \<Rightarrow> (Inl e, s)
         | Inr embedding \<Rightarrow>
             (let metadata = store_metadata t c
              in case coll_add (collection t) s [item_id c] [embedding] [text_to_embed]
                        [metadata] of
                   (Inl e, s') \<Rightarrow> (Inl e, s')
                 | (Inr _, s') \<Rightarrow> (Inr (item_id c), s')))"

definition store_content :: "'s tool \<Rightarrow> 's \<Rightarrow> ContentItem \<Rightarrow> (exn + pystr) \<times> 's" where
  "store_content t s c =
     (case store_content_try t s c of
        (Inl e, s') \<Rightarrow> (Inl (wrap store_failed e), s')
      | (Inr cid, s') \<Rightarrow> (Inr cid, s'))"

subsection \<open>retrieve_content\<close>

text \<open>
  The names bound at the top level of the module \<open>vector_store\<close>: its imports and its
  class. A name that is not among them (and is no builtin) raises \<open>NameError\<close> where it
  is evaluated.
\<close>

definition module_globals :: "string list" where
  "module_globals =
     [''chromadb'', ''List'', ''Optional'', ''Dict'', ''Any'', ''SentenceTransformer'',
      ''CallbackManagerForToolRun'', ''json'', ''StorageTool'', ''ToolResult'',
      ''ContentItem'', ''config'', ''VectorStoreException'', ''ChromaVectorStoreTool'']"

definition lookup_global :: "string \<Rightarrow> exn + unit" where
  "lookup_global name =
     (if name \<in> set module_globals then Inr ()
      else Inl (Exn NameError (ascii (''name '' @ [CHR 0x27] @ name @ [CHR 0x27] @
                                      '' is not defined''))))"

text \<open>The message of the \<open>NameError\<close> for the name \<open>datetime\<close>.\<close>

definition datetime_undefined :: pystr where
  "datetime_undefined =
     ascii ''name '' @ [0x27] @ ascii ''datetime'' @ [0x27] @ ascii '' is not defined''"

text \<open>
  The values pydantic accepts for a \<open>str\<close> field and for a \<open>float\<close> field, among the
  scalars a metadata dictionary holds.
\<close>

definition as_str :: "pyval \<Rightarrow> pystr option" where
  "as_str v = (case v of PStr x \<Rightarrow> Some x | _ \<Rightarrow> None)"

definition as_float :: "pyval \<Rightarrow> real option" where
  "as_float v = (case v of PFloat x \<Rightarrow> Some x | PInt n \<Rightarrow> Some (of_int n) | _ \<Rightarrow> None)"

text \<open>\<open>json.loads(v)\<close> of a metadata value: a value that is no string is a \<open>TypeError\<close>.\<close>

definition loads_value :: "'s tool \<Rightarrow> pyval \<Rightarrow> exn + pystr list" where
  "loads_value t v =
     (case v of
        PStr s \<Rightarrow> json_loads t s
      | _ \<Rightarrow> Inl (Exn TypeError (ascii ''the JSON object must be str, bytes or bytearray'')))"

text \<open>
  The keyword arguments of the \<open>ContentItem(...)\<close> call, evaluated left to right; the
  first one that raises ends the evaluation. \<open>published_at\<close> is
  \<open>datetime.fromisoformat(metadata["published_at"])\<close>: the name \<open>datetime\<close> is looked up
  first. \<open>fromisoformat\<close> is what the call would compute were the name bound.
\<close>

definition published_at_arg ::
  "(pystr \<Rightarrow> exn + datetime) \<Rightarrow> pydict \<Rightarrow> exn + datetime" where
  "published_at_arg fromisoformat md =
     bind_exn (lookup_global ''datetime'') (\<lambda>_.
     bind_exn (dict_getitem md (ascii ''published_at'')) (\<lambda>v.
       case as_str v of
         None \<Rightarrow> Inl (Exn TypeError (ascii ''fromisoformat: argument must be str''))
       | Some p \<Rightarrow> fromisoformat p))"

definition retrieve_kwargs ::
  "'s tool \<Rightarrow> (pystr \<Rightarrow> exn + datetime) \<Rightarrow> pystr \<Rightarrow> pydict \<Rightarrow> pystr \<Rightarrow>
     exn + ContentItem_kwargs" where
  "retrieve_kwargs t fromisoformat content_id md document =
     bind_exn (dict_getitem md (ascii ''title'')) (\<lambda>v_title.
     bind_exn (dict_getitem md (ascii ''url'')) (\<lambda>v_url.
     bind_exn (dict_getitem md (ascii ''content_type'')) (\<lambda>v_type.
     bind_exn (dict_getitem md (ascii ''source_name'')) (\<lambda>v_source.
     bind_exn (loads_value t (dict_get md (ascii ''authors'') (PStr (ascii ''[]''))))
       (\<lambda>v_authors.
     bind_exn (loads_value t (dict_get md (ascii ''categories'') (PStr (ascii ''[]''))))
       (\<lambda>v_categories.
     bind_exn (loads_value t (dict_get md (ascii ''tags'') (PStr (ascii ''[]''))))
       (\<lambda>v_tags.
     bind_exn (published_at_arg fromisoformat md) (\<lambda>published.
     bind_exn (validated (as_str v_title)) (\<lambda>ti.
     bind_exn (validated (as_str v_url)) (\<lambda>u.
     bind_exn (validated (as_str v_type)) (\<lambda>ct.
     bind_exn (validated (as_str v_source)) (\<lambda>sn.
     bind_exn (validated (as_float (dict_get md (ascii ''quality_score'') (PFloat 0.0))))
       (\<lambda>q.
       Inr \<lparr> kw_id = Some content_id, kw_title = ti, kw_content = document,
             kw_summary = None, kw_url = u, kw_content_type = ct,
             kw_source_id = [], kw_source_name = sn,
             kw_authors = Some v_authors, kw_tags = Some v_tags,
             kw_categories = Some v_categories, kw_language = None,
             kw_published_at = published, kw_collected_at = None,
             kw_processed_at = None, kw_quality_score = Some q,
             kw_quality_level = None, kw_relevance_score = None,
             kw_importance_score = None, kw_processing_status = None,
             kw_error_message = None, kw_metadata = None,
             kw_raw_data = None \<rparr>)))))))))))))"

text \<open>The body of the \<open>try\<close>.\<close>

definition retrieve_content_try ::
  "'s tool \<Rightarrow> (pystr \<Rightarrow> exn + datetime) \<Rightarrow> pystr \<Rightarrow> datetime \<Rightarrow> 's \<Rightarrow> pystr \<Rightarrow>
     exn + ContentItem option" where
  "retrieve_content_try t fromisoformat uuid now s content_id =
     (case coll_get (collection t) s [content_id] of
        Inl e \<Rightarrow> Inl e
      | Inr results \<Rightarrow>
          if get_ids results = [] then Inr None
          else
            case py_first (get_metadatas results) of Inl e \<Rightarrow> Inl e | Inr md \<Rightarrow>
            case py_first (get_documents results) of Inl e \<Rightarrow> Inl e | Inr document \<Rightarrow>
            case retrieve_kwargs t fromisoformat content_id md document of
              Inl e \<Rightarrow> Inl e
            | Inr kw \<Rightarrow>
                (case ContentItem_init uuid now kw of
                   Inl e \<Rightarrow> Inl e
                 | Inr item \<Rightarrow> Inr (Some item)))"

definition retrieve_content ::
  "'s tool \<Rightarrow> (pystr \<Rightarrow> exn + datetime) \<Rightarrow> pystr \<Rightarrow> datetime \<Rightarrow> 's \<Rightarrow> pystr \<Rightarrow>
     exn + ContentItem option" where
  "retrieve_content t fromisoformat uuid now s content_id =
     (case retrieve_content_try t fromisoformat uuid now s content_id of
        Inl e \<Rightarrow> Inl (wrap retrieve_failed e)
      | Inr r \<Rightarrow> Inr r)"

subsection \<open>search_content and search_similar_content\<close>

record search_result =
  result_id :: pystr
  result_content :: pystr
  result_metadata :: pydict
  similarity_score :: real

text \<open>
  The dictionary built for position \<open>i\<close>: \<open>results["documents"][0][i]\<close>,
  \<open>results["metadatas"][0][i]\<close> and \<open>1 - results["distances"][0][i]\<close>, in this order.
\<close>

definition result_row :: "query_result \<Rightarrow> nat \<Rightarrow> pystr \<Rightarrow> exn + search_result" where
  "result_row results i doc_id =
     (case py_first (query_documents results) of Inl e \<Rightarrow> Inl e | Inr docs \<Rightarrow>
      case py_index docs i of Inl e \<Rightarrow> Inl e | Inr doc \<Rightarrow>
      case py_first (query_metadatas results) of Inl e \<Rightarrow> Inl e | Inr mds \<Rightarrow>
      case py_index mds i of Inl e \<Rightarrow> Inl e | Inr md \<Rightarrow>
      case py_first (query_distances results) of Inl e \<Rightarrow> Inl e | Inr ds \<Rightarrow>
      case py_index ds i of Inl e \<Rightarrow> Inl e | Inr d \<Rightarrow>
        Inr \<lparr> result_id = doc_id, result_content = doc, result_metadata = md,
              similarity_score = 1 - d \<rparr>)"

text \<open>
  What the specification asks of a result \<open>r\<close> for position \<open>i\<close> and id \<open>doc_id\<close> of the
  index's answer: it carries that id, and its score is \<open>1 - d\<close> for the distance \<open>d\<close> the
  index reports at this very position, so that the score is in \<open>[0, 1]\<close> exactly when
  \<open>d\<close> is.
\<close>

definition scored_at :: "query_result \<Rightarrow> nat \<times> pystr \<Rightarrow> search_result \<Rightarrow> bool" where
  "scored_at results x r =
     (result_id r = snd x \<and>
      (\<exists>ds d. py_first (query_distances results) = Inr ds \<and> py_index ds (fst x) = Inr d \<and>
         similarity_score r = 1 - d \<and>
         ((0 \<le> similarity_score r \<and> similarity_score r \<le> 1) = (0 \<le> d \<and> d \<le> 1))))"

text \<open>The loop of \<open>search_content\<close> over \<open>enumerate(results["ids"][0])\<close>.\<close>

fun search_loop ::
  "query_result \<Rightarrow> (nat \<times> pystr) list \<Rightarrow> search_result list \<Rightarrow> exn + search_result list"
  where
  "search_loop results [] search_results = Inr search_results"
| "search_loop results ((i, doc_id) # rest) search_results =
     (case result_row results i doc_id of
        Inl e \<Rightarrow> Inl e
      | Inr result \<Rightarrow> search_loop results rest (search_results @ [result]))"

definition search_content_try ::
  "'s tool \<Rightarrow> 's \<Rightarrow> pystr \<Rightarrow> int \<Rightarrow> pydict option \<Rightarrow> exn + search_result list" where
  "search_content_try t s query n_results where_filter =
     (case encode t query of
        Inl e \<Rightarrow> Inl e
      | Inr query_embedding \<Rightarrow>
          (case coll_query (collection t) s [query_embedding] n_results where_filter of
             Inl e \<Rightarrow> Inl e
           | Inr results \<Rightarrow>
               (case py_first (query_ids results) of
                  Inl e \<Rightarrow> Inl e
                | Inr ids \<Rightarrow> search_loop results (enumerate 0 ids) [])))"

definition search_content ::
  "'s tool \<Rightarrow> 's \<Rightarrow> pystr \<Rightarrow> int \<Rightarrow> pydict option \<Rightarrow> exn + search_result list" where
  "search_content t s query n_results where_filter =
     (case search_content_try t s query n_results where_filter of
        Inl e \<Rightarrow> Inl (wrap search_failed e)
      | Inr r \<Rightarrow> Inr r)"

text \<open>The loop of \<open>search_similar_content\<close>, with its \<open>continue\<close>.\<close>

fun similar_loop ::
  "query_result \<Rightarrow> bool \<Rightarrow> pystr \<Rightarrow> (nat \<times> pystr) list \<Rightarrow> search_result list \<Rightarrow>
     exn + search_result list" where
  "similar_loop results exclude_self self_id [] search_results = Inr search_results"
| "similar_loop results exclude_self self_id ((i, doc_id) # rest) search_results =
     (if exclude_self \<and> doc_id = self_id
      then similar_loop results exclude_self self_id rest search_results
      else
        case result_row results i doc_id of
          Inl e \<Rightarrow> Inl e
        | Inr result \<Rightarrow>
            similar_loop results exclude_self self_id rest (search_results @ [result]))"

definition search_similar_content_try ::
  "'s tool \<Rightarrow> 's \<Rightarrow> ContentItem \<Rightarrow> int \<Rightarrow> bool \<Rightarrow> exn + search_result list" where
  "search_similar_content_try t s content_item n_results exclude_self =
     (let text_to_embed = prepare_text_for_embedding content_item
      in case encode t text_to_embed of
           Inl e \<Rightarrow> Inl e
         | Inr embedding \<Rightarrow>
             (case coll_query (collection t) s [embedding]
                     (n_results + (if exclude_self then 1 else 0)) None of
                Inl e \<Rightarrow> Inl e
              | Inr results \<Rightarrow>
                  (case py_first (query_ids results) of
                     Inl e \<Rightarrow> Inl e
                   | Inr ids \<Rightarrow>
                       (case similar_loop results exclude_self (item_id content_item)
                               (enumerate 0 ids) [] of
                          Inl e \<Rightarrow> Inl e
                        | Inr search_results \<Rightarrow>
                            Inr (py_slice_to search_results n_results)))))"

definition search_similar_content ::
  "'s tool \<Rightarrow> 's \<Rightarrow> ContentItem \<Rightarrow> int \<Rightarrow> bool \<Rightarrow> exn + search_result list" where
  "search_similar_content t s content_item n_results exclude_self =
     (case search_similar_content_try t s content_item n_results exclude_self of
        Inl e \<Rightarrow> Inl (wrap similar_failed e)
      | Inr r \<Rightarrow> Inr r)"

subsection \<open>delete_content and update_content\<close>

text \<open>
  Both methods end every path in a \<open>return\<close>; their outcome is still typed as the other
  methods' (\<open>Inl\<close> an exception that leaves the method), so that not raising is a
  property to prove.
\<close>

definition delete_content :: "'s tool \<Rightarrow> 's \<Rightarrow> pystr \<Rightarrow> (exn + bool) \<times> 's" where
  "delete_content t s content_id =
     (case coll_delete (collection t) s [content_id] of
        (Inl e, s') \<Rightarrow> (Inr False, s')
      | (Inr _, s') \<Rightarrow> (Inr True, s'))"

definition update_content :: "'s tool \<Rightarrow> 's \<Rightarrow> ContentItem \<Rightarrow> (exn + bool) \<times> 's" where
  "update_content t s c =
     (case delete_content t s (item_id c) of
        (Inl e, s1) \<Rightarrow> (Inr False, s1)
      | (Inr _, s1) \<Rightarrow>
          (case store_content t s1 c of
             (Inl e, s2) \<Rightarrow> (Inr False, s2)
           | (Inr _, s2) \<Rightarrow> (Inr True, s2)))"

subsection \<open>_execute\<close>

definition vector_search_failed :: pystr where
  "vector_search_failed = [0x5411, 0x91CF, 0x641C, 0x7D22, 0x5931, 0x8D25, 0x3A, 0x20]"

text \<open>\<open>ToolResult\<close> of \<open>tools/base.py\<close>; the field \<open>metadata\<close> is \<open>tool_metadata\<close> here.\<close>

record 'd ToolResult =
  success :: bool
  data :: "'d option"
  error :: "pystr option"
  tool_metadata :: pydict
  execution_time :: "real option"

definition execute ::
  "'s tool \<Rightarrow> 's \<Rightarrow> pystr \<Rightarrow> exn + (search_result list) ToolResult" where
  "execute t s query =
     (case search_content t s query 10 None of
        Inl e \<Rightarrow> Inl (wrap vector_search_failed e)
      | Inr results \<Rightarrow>
          Inr \<lparr> success = True, data = Some results, error = None,
                tool_metadata =
                  [(ascii ''query'', PStr query),
                   (ascii ''total_results'', PInt (int (length results))),
                   (ascii ''collection_size'', PInt (coll_count (collection t) s))],
                execution_time = None \<rparr>)"

section \<open>The base tool (tools/base.py)\<close>

text \<open>
  \<open>NewsAgentBaseTool._run\<close>, over the \<open>_execute\<close> of the subclass and the tool's
  \<open>name\<close>.
\<close>

definition run ::
  "pystr \<Rightarrow> (pystr \<Rightarrow> exn + 'd ToolResult) \<Rightarrow> pystr \<Rightarrow> exn + 'd ToolResult" where
  "run name execute_fn query =
     (case execute_fn query of
        Inr result \<Rightarrow> Inr result
      | Inl e \<Rightarrow>
          Inr \<lparr> success = False, data = None, error = Some (exn_str e),
                tool_metadata =
                  [(ascii ''tool_name'', PStr name), (ascii ''query'', PStr query)],
                execution_time = None \<rparr>)"

section \<open>A reference collection and a reference tool\<close>

text \<open>
  Modelled from the spec: the Vector Index of section 4.3, which the source takes from
  the Chroma library. An entry is a (vector, text, metadata) triple under its id;
  \<open>insert\<close> adds or overwrites the entry for the id, \<open>fetch\<close> is an exact lookup,
  \<open>query\<close> returns the at most \<open>k\<close> entries that match the filter, closest first,
  \<open>delete\<close> removes the entry and accepts an id that is not there, \<open>count\<close> is the
  number of entries.
\<close>

record entry =
  entry_vector :: embedding
  entry_text :: pystr
  entry_metadata :: pydict

type_synonym index_state = "(pystr \<times> entry) list"

fun index_insert :: "pystr \<Rightarrow> entry \<Rightarrow> index_state \<Rightarrow> index_state" where
  "index_insert k v [] = [(k, v)]"
| "index_insert k v ((k', v') # rest) =
     (if k = k' then (k, v) # rest else (k', v') # index_insert k v rest)"

fun index_insert_all ::
  "(pystr \<times> embedding \<times> pystr \<times> pydict) list \<Rightarrow> index_state \<Rightarrow> index_state" where
  "index_insert_all [] s = s"
| "index_insert_all ((k, v, d, m) # rest) s =
     index_insert_all rest
       (index_insert k \<lparr>entry_vector = v, entry_text = d, entry_metadata = m\<rparr> s)"

definition index_add ::
  "index_state \<Rightarrow> pystr list \<Rightarrow> embedding list \<Rightarrow> pystr list \<Rightarrow> pydict list \<Rightarrow>
     (exn + unit) \<times> index_state" where
  "index_add s ids embeddings documents metadatas =
     (Inr (), index_insert_all (zip ids (zip embeddings (zip documents metadatas))) s)"

definition index_get :: "index_state \<Rightarrow> pystr list \<Rightarrow> exn + get_result" where
  "index_get s ids =
     (let hits = filter (\<lambda>kv. fst kv \<in> set ids) s
      in Inr \<lparr> get_ids = map fst hits,
                get_documents = map (\<lambda>kv. entry_text (snd kv)) hits,
                get_metadatas = map (\<lambda>kv. entry_metadata (snd kv)) hits \<rparr>)"

definition index_delete :: "index_state \<Rightarrow> pystr list \<Rightarrow> (exn + unit) \<times> index_state" where
  "index_delete s ids = (Inr (), filter (\<lambda>kv. fst kv \<notin> set ids) s)"

definition index_count :: "index_state \<Rightarrow> int" where
  "index_count s = int (length s)"

text \<open>The equality constraints of a filter.\<close>

definition matches :: "pydict option \<Rightarrow> pydict \<Rightarrow> bool" where
  "matches where_filter md =
     (case where_filter of
        None \<Rightarrow> True
      | Some constraints \<Rightarrow> list_all (\<lambda>kv. map_of md (fst kv) = Some (snd kv)) constraints)"

definition nearest ::
  "(embedding \<Rightarrow> embedding \<Rightarrow> real) \<Rightarrow> index_state \<Rightarrow> int \<Rightarrow> pydict option \<Rightarrow> embedding \<Rightarrow>
     (real \<times> pystr \<times> entry) list" where
  "nearest metric s k where_filter q =
     take (nat k)
       (sort_key fst
          (map (\<lambda>kv. (metric q (entry_vector (snd kv)), fst kv, snd kv))
             (filter (\<lambda>kv. matches where_filter (entry_metadata (snd kv))) s)))"

definition index_query ::
  "(embedding \<Rightarrow> embedding \<Rightarrow> real) \<Rightarrow> index_state \<Rightarrow> embedding list \<Rightarrow> int \<Rightarrow>
     pydict option \<Rightarrow> exn + query_result" where
  "index_query metric s qs k where_filter =
     (let rows = map (nearest metric s k where_filter) qs
      in Inr \<lparr> query_ids = map (map (\<lambda>r. fst (snd r))) rows,
                query_documents = map (map (\<lambda>r. entry_text (snd (snd r)))) rows,
                query_metadatas = map (map (\<lambda>r. entry_metadata (snd (snd r)))) rows,
                query_distances = map (map fst) rows \<rparr>)"

definition reference_collection ::
  "(embedding \<Rightarrow> embedding \<Rightarrow> real) \<Rightarrow> index_state collection_ops" where
  "reference_collection metric =
     \<lparr> coll_add = index_add, coll_get = index_get, coll_query = index_query metric,
       coll_delete = index_delete, coll_count = index_count \<rparr>"

text \<open>The squared Euclidean distance, the metric of a Chroma collection by default.\<close>

definition l2 :: "embedding \<Rightarrow> embedding \<Rightarrow> real" where
  "l2 a b = sum_list (map (\<lambda>xy. (fst xy - snd xy) ^ 2) (zip a b))"

text \<open>
  The instances of the library functions that the closed examples run on: an embedding
  provider that rejects the empty text and maps any other text to a vector of
  dimension one; the JSON text of a list of strings, with \<open>"\<close> and \<open>\\<close> escaped, and its
  reader; the ISO format of the one instant the example records are published at.
\<close>

definition example_encode :: "pystr \<Rightarrow> exn + embedding" where
  "example_encode text =
     (if text = [] then Inl (Exn ValueError (ascii ''empty text''))
      else Inr [real (length text)])"

definition json_quote :: "pystr \<Rightarrow> pystr" where
  "json_quote str =
     [0x22] @ concat (map (\<lambda>c. if c = 0x22 \<or> c = 0x5C then [0x5C, c] else [c]) str) @ [0x22]"

definition example_dumps :: "pystr list \<Rightarrow> pystr" where
  "example_dumps xs = [0x5B] @ py_join (ascii '', '') (map json_quote xs) @ [0x5D]"

datatype json_mode =
  JStart | JOpen | JString pystr | JEscape pystr | JAfter | JComma | JEnd | JBad

fun json_step :: "json_mode \<times> pystr list \<Rightarrow> nat \<Rightarrow> json_mode \<times> pystr list" where
  "json_step (JStart, acc) c =
     (if c = 0x5B then (JOpen, acc) else if c = 0x20 then (JStart, acc) else (JBad, acc))"
| "json_step (JOpen, acc) c =
     (if c = 0x22 then (JString [], acc) else if c = 0x5D then (JEnd, acc)
      else if c = 0x20 then (JOpen, acc) else (JBad, acc))"
| "json_step (JString cur, acc) c =
     (if c = 0x22 then (JAfter, acc @ [cur]) else if c = 0x5C then (JEscape cur, acc)
      else (JString (cur @ [c]), acc))"
| "json_step (JEscape cur, acc) c =
     (if c = 0x22 \<or> c = 0x5C then (JString (cur @ [c]), acc) else (JBad, acc))"
| "json_step (JAfter, acc) c =
     (if c = 0x2C then (JComma, acc) else if c = 0x5D then (JEnd, acc)
      else if c = 0x20 then (JAfter, acc) else (JBad, acc))"
| "json_step (JComma, acc) c =
     (if c = 0x22 then (JString [], acc) else if c = 0x20 then (JComma, acc)
      else (JBad, acc))"
| "json_step (JEnd, acc) c = (if c = 0x20 then (JEnd, acc) else (JBad, acc))"
| "json_step (JBad, acc) c = (JBad, acc)"

definition example_loads :: "pystr \<Rightarrow> exn + pystr list" where
  "example_loads str =
     (case foldl json_step (JStart, []) str of
        (JEnd, acc) \<Rightarrow> Inr acc
      | _ \<Rightarrow> Inl (Exn ValueError (ascii ''Expecting value'')))"

definition example_instant :: datetime where
  "example_instant = Datetime 1704067200000000"

definition example_isoformat :: "datetime \<Rightarrow> pystr" where
  "example_isoformat d =
     (if d = example_instant then ascii ''2024-01-01T00:00:00''
      else ascii ''1970-01-01T00:00:00'')"

definition example_fromisoformat :: "pystr \<Rightarrow> exn + datetime" where
  "example_fromisoformat str =
     (if str = ascii ''2024-01-01T00:00:00'' then Inr example_instant
      else Inl (Exn ValueError (ascii ''Invalid isoformat string'')))"

definition example_tool :: "index_state tool" where
  "example_tool =
     \<lparr> collection = reference_collection l2, encode = example_encode,
       isoformat = example_isoformat, json_dumps = example_dumps,
       json_loads = example_loads \<rparr>"

text \<open>Example records: \<open>item title body\<close> is published at the example instant.\<close>

definition example_item :: "string \<Rightarrow> string \<Rightarrow> string \<Rightarrow> ContentItem" where
  "example_item ident ttl body =
     \<lparr> item_id = ascii ident, title = ascii ttl, content = ascii body, summary = None,
       url = ascii ''http://example.org'', content_type = NEWS_ARTICLE,
       source_id = ascii ''src'', source_name = ascii ''feed'', authors = [],
       tags = [], categories = [], language = ascii ''en'',
       published_at = example_instant, collected_at = example_instant,
       processed_at = None, quality_score = 0.85, quality_level = Some HIGH,
       relevance_score = 0, importance_score = 0, processing_status = PENDING,
       error_message = None, metadata = [], raw_data = None \<rparr>"

text \<open>The keyword arguments an ingestion source constructs an example record from.\<close>

definition example_kwargs :: "string \<Rightarrow> string \<Rightarrow> string \<Rightarrow> ContentItem_kwargs" where
  "example_kwargs ident ttl body =
     \<lparr> kw_id = Some (ascii ident), kw_title = ascii ttl, kw_content = ascii body,
       kw_summary = None, kw_url = ascii ''http://example.org'',
       kw_content_type = ascii ''news_article'', kw_source_id = ascii ''src'',
       kw_source_name = ascii ''feed'', kw_authors = None, kw_tags = None,
       kw_categories = None, kw_language = None, kw_published_at = example_instant,
       kw_collected_at = Some example_instant, kw_processed_at = None,
       kw_quality_score = Some 0.85, kw_quality_level = None,
       kw_relevance_score = None, kw_importance_score = None,
       kw_processing_status = None, kw_error_message = None, kw_metadata = None,
       kw_raw_data = None \<rparr>"

definition example_a :: ContentItem where
  "example_a = example_item ''a'' ''abc'' []"

definition example_b :: ContentItem where
  "example_b = example_item ''b'' ''abcd'' []"

definition example_c :: ContentItem where
  "example_c = example_item ''c'' ''a'' []"

text \<open>
  A record with all five parts, and one whose summary is empty, whose body is empty and
  that has no authors.
\<close>

definition example_full :: ContentItem where
  "example_full =
     (example_item ''f'' ''Title'' ''Body'')
       \<lparr> summary := Some (ascii ''Sum''), authors := [ascii ''Ann'', ascii ''Bob''],
         tags := [ascii ''ml'', ascii ''nlp'', ascii ''ai''] \<rparr>"

definition example_sparse :: ContentItem where
  "example_sparse =
     (example_item ''g'' ''Title'' []) \<lparr> summary := Some [], tags := [ascii ''x''] \<rparr>"

text \<open>A revision of the first record: the same id, another title.\<close>

definition example_a2 :: ContentItem where
  "example_a2 = example_item ''a'' ''abcde'' []"

text \<open>A record whose title, summary and body are empty: its projected text is empty.\<close>

definition example_empty :: ContentItem where
  "example_empty = example_item ''e'' [] []"

text \<open>The entry that storing a record with the example tool leaves in the index.\<close>

definition stored :: "ContentItem \<Rightarrow> pystr \<times> entry" where
  "stored c =
     (item_id c,
      \<lparr> entry_vector = [real (length (prepare_text_for_embedding c))],
        entry_text = prepare_text_for_embedding c,
        entry_metadata = store_metadata example_tool c \<rparr>)"

text \<open>The search result for a stored record, with the given score.\<close>

definition found :: "ContentItem \<Rightarrow> real \<Rightarrow> search_result" where
  "found c score =
     \<lparr> result_id = item_id c, result_content = prepare_text_for_embedding c,
       result_metadata = store_metadata example_tool c, similarity_score = score \<rparr>"

text \<open>
  The index that holds the first three example records, and what the collection
  answers there to a query for the neighbours of the vector \<open>[3]\<close>: all three, and the
  nearest two.
\<close>

definition example_index :: index_state where
  "example_index = [stored example_a, stored example_b, stored example_c]"

definition example_results :: query_result where
  "example_results =
     \<lparr> query_ids = [[ascii ''a'', ascii ''b'', ascii ''c'']],
       query_documents = [[ascii ''abc'', ascii ''abcd'', ascii ''a'']],
       query_metadatas = [[store_metadata example_tool example_a,
                           store_metadata example_tool example_b,
                           store_metadata example_tool example_c]],
       query_distances = [[0, 1, 4]] \<rparr>"

definition example_results2 :: query_result where
  "example_results2 =
     \<lparr> query_ids = [[ascii ''a'', ascii ''b'']],
       query_documents = [[ascii ''abc'', ascii ''abcd'']],
       query_metadatas = [[store_metadata example_tool example_a,
                           store_metadata example_tool example_b]],
       query_distances = [[0, 1]] \<rparr>"

section \<open>Properties\<close>

subsection \<open>Auxiliary facts\<close>

lemma py_slice_to_nonneg: "0 \<le> n \<Longrightarrow> py_slice_to xs n = take (nat n) xs"
  by (simp add: py_slice_to_def)

lemma length_py_slice_to: "0 \<le> n \<Longrightarrow> length (py_slice_to xs n) \<le> nat n"
  by (simp add: py_slice_to_def)

lemma set_py_slice_to: "set (py_slice_to xs n) \<subseteq> set xs"
  by (auto simp: py_slice_to_def dest: in_set_takeD)

lemma length_ascii: "length (ascii str) = length str"
  by (simp add: ascii_def)

lemma bind_exn_Inr:
  "bind_exn m f = Inr y \<Longrightarrow> \<exists>x. m = Inr x \<and> f x = Inr y"
  by (cases m) (simp_all add: bind_exn_def)

lemma py_index_Inr: "py_index xs i = Inr x \<Longrightarrow> i < length xs \<and> x = xs ! i"
  by (auto simp: py_index_def split: if_splits)

lemma py_first_set: "py_first xs = Inr x \<Longrightarrow> x \<in> set xs"
  by (auto simp: py_first_def split: list.splits)

lemma result_row_Inr:
  assumes "result_row results i doc_id = Inr row"
  shows "result_id row = doc_id"
    and "\<exists>ds. py_first (query_distances results) = Inr ds \<and> i < length ds \<and>
              similarity_score row = 1 - ds ! i"
  using assms
  by (auto simp: result_row_def split: sum.splits dest!: py_index_Inr)

lemma search_loop_rows:
  "search_loop results xs acc = Inr rs \<Longrightarrow>
     \<exists>rows. rs = acc @ rows \<and>
       list_all2 (\<lambda>x row. result_row results (fst x) (snd x) = Inr row) xs rows"
proof (induction xs arbitrary: acc)
  case Nil
  then show ?case by simp
next
  case (Cons x xs)
  obtain i d where x: "x = (i, d)" by (cases x)
  from Cons.prems x obtain row where row: "result_row results i d = Inr row"
    and rest: "search_loop results xs (acc @ [row]) = Inr rs"
    by (auto split: sum.splits)
  from Cons.IH[OF rest] obtain rows where "rs = (acc @ [row]) @ rows"
    and "list_all2 (\<lambda>x row. result_row results (fst x) (snd x) = Inr row) xs rows"
    by blast
  then show ?case using row x
    by (intro exI[of _ "row # rows"]) simp
qed

lemma similar_loop_rows:
  "similar_loop results ex sid xs acc = Inr rs \<Longrightarrow>
     \<exists>rows. rs = acc @ rows \<and>
       list_all2 (\<lambda>x row. result_row results (fst x) (snd x) = Inr row)
         (filter (\<lambda>x. \<not> (ex \<and> snd x = sid)) xs) rows"
proof (induction xs arbitrary: acc)
  case Nil
  then show ?case by simp
next
  case (Cons x xs)
  obtain i d where x: "x = (i, d)" by (cases x)
  show ?case
  proof (cases "ex \<and> d = sid")
    case True
    with Cons.prems x have "similar_loop results ex sid xs acc = Inr rs" by simp
    from Cons.IH[OF this] show ?thesis using True x by simp
  next
    case False
    with Cons.prems x obtain row where row: "result_row results i d = Inr row"
      and rest: "similar_loop results ex sid xs (acc @ [row]) = Inr rs"
      by (auto split: sum.splits)
    from Cons.IH[OF rest] obtain rows where "rs = (acc @ [row]) @ rows"
      and "list_all2 (\<lambda>x row. result_row results (fst x) (snd x) = Inr row)
             (filter (\<lambda>x. \<not> (ex \<and> snd x = sid)) xs) rows"
      by blast
    then show ?thesis using row x False
      by (intro exI[of _ "row # rows"]) simp
  qed
qed

lemma rows_ids:
  "list_all2 (\<lambda>x row. result_row results (fst x) (snd x) = Inr row) xs rows \<Longrightarrow>
     map result_id rows = map snd xs"
  by (induction rule: list_all2_induct) (auto dest: result_row_Inr(1))

lemma rows_scores:
  "list_all2 (\<lambda>x row. result_row results (fst x) (snd x) = Inr row) xs rows \<Longrightarrow>
   py_first (query_distances results) = Inr ds \<Longrightarrow>
     map similarity_score rows = map (\<lambda>x. 1 - ds ! fst x) xs \<and>
     (\<forall>x\<in>set xs. fst x < length ds)"
  by (induction rule: list_all2_induct) (auto dest!: result_row_Inr(2))

lemma rows_nonempty_distances:
  "list_all2 (\<lambda>x row. result_row results (fst x) (snd x) = Inr row) xs rows \<Longrightarrow>
   xs \<noteq> [] \<Longrightarrow> \<exists>ds. py_first (query_distances results) = Inr ds"
  by (induction rule: list_all2_induct) (auto dest!: result_row_Inr(2))

lemma filter_enumerate_snd:
  "map snd (filter (\<lambda>x. P (snd x)) (enumerate n xs)) = filter P xs"
  by (induction xs arbitrary: n) auto

lemma sorted_wrt_antitone_prefix:
  fixes ds :: "real list"
  assumes "sorted ds" "n \<le> length ds"
  shows "sorted_wrt (\<lambda>a b. a \<ge> b) (map (\<lambda>i. 1 - ds ! i) [0..<n])"
  using assms
  by (auto simp: sorted_wrt_map sorted_wrt_iff_nth_less sorted_iff_nth_mono)

lemma unit_interval_flip:
  fixes d :: real
  shows "(0 \<le> 1 - d \<and> 1 - d \<le> 1) = (0 \<le> d \<and> d \<le> 1)"
  by auto

lemma result_row_scored_at:
  assumes "result_row results i doc_id = Inr row"
  shows "scored_at results (i, doc_id) row"
proof -
  from assms obtain ds d where
    ds: "py_first (query_distances results) = Inr ds" and d: "py_index ds i = Inr d" and
    row: "result_id row = doc_id" "similarity_score row = 1 - d"
    by (auto simp: result_row_def split: sum.splits)
  from row(2) have "(0 \<le> similarity_score row \<and> similarity_score row \<le> 1) = (0 \<le> d \<and> d \<le> 1)"
    by (simp only: unit_interval_flip)
  with ds d row show ?thesis
    unfolding scored_at_def by auto
qed

lemma rows_scored_at:
  "list_all2 (\<lambda>x row. result_row results (fst x) (snd x) = Inr row) xs rows \<Longrightarrow>
     list_all2 (scored_at results) xs rows"
proof (induction rule: list_all2_induct)
  case Nil
  then show ?case by simp
next
  case (Cons x xs row rows)
  from result_row_scored_at[OF Cons.hyps(1)] have "scored_at results x row" by simp
  with Cons.IH show ?case by simp
qed

lemma list_all2_py_slice_to:
  assumes "list_all2 P xs ys"
  shows "list_all2 P (py_slice_to xs n) (py_slice_to ys n)"
proof -
  from assms have "length xs = length ys" by (rule list_all2_lengthD)
  with assms show ?thesis
    by (simp add: py_slice_to_def list_all2_takeI)
qed

lemma py_join_joined_with: "py_join sep parts = joined_with sep parts"
proof (induction sep parts rule: py_join.induct)
  case (1 sep)
  show ?case by (simp add: joined_with_def)
next
  case (2 sep x)
  show ?case by (simp add: joined_with_def)
next
  case (3 sep x y ys)
  then show ?case by (simp add: joined_with_def)
qed

lemma set_quality_level_bucket:
  "set_quality_level None (Some q) = Some (quality_bucket q)"
  by (simp add: set_quality_level_def quality_bucket_def)

lemma published_at_arg_raises:
  "published_at_arg f md = Inl (Exn NameError datetime_undefined)"
  by (simp add: published_at_arg_def lookup_global_def module_globals_def bind_exn_def ascii_def
      datetime_undefined_def)

lemma retrieve_kwargs_raises: "retrieve_kwargs t f cid md doc \<noteq> Inr kw"
proof
  assume "retrieve_kwargs t f cid md doc = Inr kw"
  then obtain p where "published_at_arg f md = Inr p"
    unfolding retrieve_kwargs_def by (auto dest!: bind_exn_Inr)
  then show False by (simp add: published_at_arg_raises)
qed

text \<open>
  Whenever the collection finds the id, \<open>retrieve_content\<close> raises: the keyword argument
  \<open>published_at\<close> looks up the name \<open>datetime\<close>, which the module does not bind. So no
  call returns a record.
\<close>

lemma retrieve_content_found_raises:
  assumes "coll_get (collection t) s [cid] = Inr results" and "get_ids results \<noteq> []"
  shows "\<exists>msg. retrieve_content t f uuid now s cid = Inl (Exn VectorStoreException msg)"
  using assms retrieve_kwargs_raises[of t f cid]
  by (auto simp: retrieve_content_def retrieve_content_try_def wrap_def split: sum.splits)

lemma retrieve_content_never_a_record:
  "retrieve_content t f uuid now s cid \<noteq> Inr (Some item)"
  using retrieve_kwargs_raises[of t f cid]
  by (auto simp: retrieve_content_def retrieve_content_try_def split: sum.splits if_splits)

text \<open>
  The index after an update is the index after deleting the id and then storing the
  record.
\<close>

lemma update_content_state:
  "snd (update_content t s c) = snd (store_content t (snd (delete_content t s (item_id c))) c)"
  by (auto simp: update_content_def delete_content_def split: prod.splits sum.splits)

subsection \<open>The reference collection\<close>

lemma length_index_insert:
  "k \<notin> fst ` set s \<Longrightarrow> length (index_insert k v s) = Suc (length s)"
  by (induction s) auto

lemma map_of_index_insert: "map_of (index_insert k v s) k = Some v"
  by (induction s) auto

lemma length_filter_key:
  "distinct (map fst s) \<Longrightarrow> k \<in> set (map fst s) \<Longrightarrow>
     Suc (length (filter (\<lambda>kv. fst kv \<noteq> k) s)) = length s"
proof (induction s)
  case Nil
  then show ?case by simp
next
  case (Cons a s)
  show ?case
  proof (cases "fst a = k")
    case True
    with Cons.prems(1) have "k \<notin> set (map fst s)" by simp
    then have "\<forall>kv\<in>set s. fst kv \<noteq> k" by auto
    then have "filter (\<lambda>kv. fst kv \<noteq> k) s = s" by (simp add: filter_id_conv)
    with True show ?thesis by simp
  next
    case False
    with Cons.prems have "distinct (map fst s)" "k \<in> set (map fst s)" by auto
    from Cons.IH[OF this] False show ?thesis by simp
  qed
qed

lemma reference_delete_content:
  "collection t = reference_collection m \<Longrightarrow>
     delete_content t s cid = (Inr True, filter (\<lambda>kv. fst kv \<noteq> cid) s)"
  by (simp add: delete_content_def reference_collection_def index_delete_def)

lemma reference_update_content:
  assumes "collection t = reference_collection m"
    and "encode t (prepare_text_for_embedding c) = Inr v"
  shows "update_content t s c =
           (Inr True,
            index_insert (item_id c)
              \<lparr> entry_vector = v, entry_text = prepare_text_for_embedding c,
                entry_metadata = store_metadata t c \<rparr>
              (filter (\<lambda>kv. fst kv \<noteq> item_id c) s))"
  using assms
  by (simp add: update_content_def delete_content_def store_content_def store_content_try_def
      reference_collection_def index_delete_def index_add_def Let_def)

lemma reference_update_count:
  assumes "collection t = reference_collection m"
    and "encode t (prepare_text_for_embedding c) = Inr v"
    and "distinct (map fst s)" and "item_id c \<in> set (map fst s)"
  shows "coll_count (collection t) (snd (update_content t s c)) = coll_count (collection t) s"
proof -
  let ?s1 = "filter (\<lambda>kv. fst kv \<noteq> item_id c) s"
  have notin: "item_id c \<notin> fst ` set ?s1" by auto
  have "length (index_insert (item_id c) e ?s1) = Suc (length ?s1)" for e
    using notin by (rule length_index_insert)
  also have "Suc (length ?s1) = length s" using assms(3,4) by (rule length_filter_key)
  finally have len: "length (index_insert (item_id c) e ?s1) = length s" for e .
  have cnt: "coll_count (collection t) = index_count"
    by (simp add: assms(1) reference_collection_def)
  show ?thesis
    unfolding reference_update_content[OF assms(1,2)] cnt index_count_def snd_conv len ..
qed

lemma reference_update_entry:
  assumes "collection t = reference_collection m"
    and "encode t (prepare_text_for_embedding c) = Inr v"
  shows "map_of (snd (update_content t s c)) (item_id c) =
           Some \<lparr> entry_vector = v, entry_text = prepare_text_for_embedding c,
                  entry_metadata = store_metadata t c \<rparr>"
  unfolding reference_update_content[OF assms] snd_conv by (rule map_of_index_insert)

subsection \<open>The examples, evaluated\<close>

lemma example_texts:
  "prepare_text_for_embedding example_a = ascii ''abc''"
  "prepare_text_for_embedding example_b = ascii ''abcd''"
  "prepare_text_for_embedding example_c = ascii ''a''"
  "prepare_text_for_embedding example_empty = []"
  by (simp_all add: example_a_def example_b_def example_c_def example_empty_def
      example_item_def prepare_text_for_embedding_def ascii_def)

lemma example_texts2: "prepare_text_for_embedding example_a2 = ascii ''abcde''"
  by (simp add: example_a2_def example_item_def prepare_text_for_embedding_def ascii_def)

lemma example_full_text:
  "prepare_text_for_embedding example_full =
     ascii ''Title'' @ [0x0A] @ ascii ''Sum'' @ [0x0A] @ ascii ''Body'' @ [0x0A] @
     [0x4F5C, 0x8005, 0x3A, 0x20] @ ascii ''Ann, Bob'' @ [0x0A] @
     [0x6807, 0x7B7E, 0x3A, 0x20] @ ascii ''ml, nlp, ai''"
  by (simp add: example_full_def example_item_def prepare_text_for_embedding_def
      py_slice_to_def newline_def authors_label_def tags_label_def ascii_def)

lemma example_sparse_text:
  "prepare_text_for_embedding example_sparse =
     ascii ''Title'' @ [0x0A] @ [0x6807, 0x7B7E, 0x3A, 0x20] @ ascii ''x''"
  by (simp add: example_sparse_def example_item_def prepare_text_for_embedding_def
      newline_def tags_label_def ascii_def)

lemma example_ids:
  "item_id example_a = ascii ''a''" "item_id example_b = ascii ''b''"
  "item_id example_c = ascii ''c''" "item_id example_empty = ascii ''e''"
  by (simp_all add: example_a_def example_b_def example_c_def example_empty_def
      example_item_def)

lemma example_ids2: "item_id example_a2 = ascii ''a''"
  by (simp add: example_a2_def example_item_def)

lemma stored_simps:
  "fst (stored c) = item_id c"
  "entry_vector (snd (stored c)) = [real (length (prepare_text_for_embedding c))]"
  "entry_text (snd (stored c)) = prepare_text_for_embedding c"
  "entry_metadata (snd (stored c)) = store_metadata example_tool c"
  by (simp_all add: stored_def)

lemma example_tool_simps:
  "encode example_tool = example_encode"
  "coll_add (collection example_tool) = index_add"
  "coll_get (collection example_tool) = index_get"
  "coll_query (collection example_tool) = index_query l2"
  "coll_delete (collection example_tool) = index_delete"
  "coll_count (collection example_tool) = index_count"
  by (simp_all add: example_tool_def reference_collection_def)

lemma example_encode_simps:
  "example_encode (ascii ''abc'') = Inr [3]"
  "example_encode (ascii ''abcd'') = Inr [4]"
  "example_encode (ascii ''a'') = Inr [1]"
  "example_encode [] = Inl (Exn ValueError (ascii ''empty text''))"
  by (simp_all add: example_encode_def ascii_def)

lemma store_example:
  "prepare_text_for_embedding c \<noteq> [] \<Longrightarrow>
   store_content example_tool s c = (Inr (item_id c), index_insert (item_id c) (snd (stored c)) s)"
  by (simp add: store_content_def store_content_try_def example_tool_simps example_encode_def
      index_add_def stored_def Let_def)

lemma example_init:
  "ContentItem_init [] example_instant (example_kwargs ''a'' ''abc'' []) = Inr example_a"
  by (simp add: ContentItem_init_def example_kwargs_def example_a_def example_item_def
      unit_interval_field_def set_quality_level_def ContentType_of_value_def ascii_def)

lemma example_query:
  "index_query l2 example_index [[3]] 10 None = Inr example_results"
  by (simp add: index_query_def nearest_def matches_def stored_simps example_texts example_ids
      l2_def ascii_def example_index_def example_results_def)

lemma example_query2:
  "index_query l2 example_index [[3]] 2 None = Inr example_results2"
  by (simp add: index_query_def nearest_def matches_def stored_simps example_texts example_ids
      l2_def ascii_def example_index_def example_results2_def)

lemma example_search:
  "search_content example_tool example_index (ascii ''abc'') 10 None =
   Inr [found example_a 1, found example_b 0, found example_c (- 3)]"
  by (simp add: search_content_def search_content_try_def example_tool_simps
      example_encode_simps example_query example_results_def py_first_def enumerate_eq_zip
      result_row_def py_index_def found_def example_ids example_texts)

lemma example_search2:
  "search_content example_tool example_index (ascii ''abc'') 2 None =
     Inr [found example_a 1, found example_b 0]"
  by (simp add: search_content_def search_content_try_def example_tool_simps
      example_encode_simps example_query2 example_results2_def py_first_def enumerate_eq_zip
      result_row_def py_index_def found_def example_ids example_texts)

lemma example_similar:
  "search_similar_content example_tool example_index example_a 1 True =
     Inr [found example_b 0]"
proof -
  have ne: "ascii ''b'' \<noteq> ascii ''a''" by (simp add: ascii_def)
  show ?thesis
    by (simp add: search_similar_content_def search_similar_content_try_def
        example_tool_simps example_texts example_encode_simps example_query2
        example_results2_def py_first_def enumerate_eq_zip result_row_def py_index_def
        found_def example_ids py_slice_to_def ne)
qed

lemma example_loads_empty: "example_loads (example_dumps []) = Inr []"
  by (simp add: example_loads_def example_dumps_def)

lemma example_retrieve:
  "retrieve_content example_tool example_fromisoformat [] example_instant [stored example_a]
     (item_id example_a) = Inl (Exn VectorStoreException (retrieve_failed @ datetime_undefined))"
proof -
  have kw: "\<And>md doc. retrieve_kwargs example_tool example_fromisoformat (item_id example_a)
              (store_metadata example_tool example_a) doc = Inl (Exn NameError datetime_undefined)"
    by (simp add: retrieve_kwargs_def published_at_arg_raises bind_exn_def dict_getitem_def
        dict_get_def store_metadata_def loads_value_def example_tool_def example_a_def
        example_item_def example_loads_empty ascii_def datetime_undefined_def)
  show ?thesis
    by (simp add: retrieve_content_def retrieve_content_try_def example_tool_simps index_get_def
        stored_simps py_first_def kw wrap_def)
qed

lemma example_retrieve_item:
  "retrieve_content example_tool example_fromisoformat [] example_instant
     [stored (example_item i t b)] (ascii i) =
   Inl (Exn VectorStoreException (retrieve_failed @ datetime_undefined))"
proof -
  have kw: "\<And>doc. retrieve_kwargs example_tool example_fromisoformat (ascii i)
              (store_metadata example_tool (example_item i t b)) doc =
            Inl (Exn NameError datetime_undefined)"
    by (simp add: retrieve_kwargs_def published_at_arg_raises bind_exn_def dict_getitem_def
        dict_get_def store_metadata_def loads_value_def example_tool_def
        example_item_def example_loads_empty ascii_def datetime_undefined_def)
  have i: "item_id (example_item i t b) = ascii i" by (simp add: example_item_def)
  show ?thesis
    by (simp add: retrieve_content_def retrieve_content_try_def example_tool_simps index_get_def
        stored_simps py_first_def kw wrap_def i)
qed

lemma example_update:
  "update_content example_tool [stored example_a] example_a2 = (Inr True, [stored example_a2])"
proof -
  have st: "(ascii ''a'', snd (stored example_a2)) = stored example_a2"
    by (simp add: stored_def example_ids2)
  have ne: "prepare_text_for_embedding example_a2 \<noteq> []"
    by (simp add: example_texts2 ascii_def)
  show ?thesis
    by (simp add: update_content_def delete_content_def example_tool_simps index_delete_def
        stored_simps example_ids example_ids2 store_example[OF ne] st)
qed

lemma example_delete_unknown:
  "delete_content example_tool [stored example_a] (ascii ''zzz'') = (Inr True, [stored example_a])"
  by (simp add: delete_content_def example_tool_simps index_delete_def stored_simps example_ids
      ascii_def)

lemma example_execute:
  "execute example_tool [stored example_a] (ascii ''abc'') =
     Inr \<lparr> success = True, data = Some [found example_a 1], error = None,
           tool_metadata = [(ascii ''query'', PStr (ascii ''abc'')),
                            (ascii ''total_results'', PInt 1),
                            (ascii ''collection_size'', PInt 1)],
           execution_time = None \<rparr>"
  by (simp add: execute_def search_content_def search_content_try_def example_tool_simps
      example_encode_simps index_query_def nearest_def matches_def stored_simps example_texts
      example_ids l2_def py_first_def enumerate_eq_zip result_row_def py_index_def found_def
      index_count_def length_ascii)

lemma example_execute_raises:
  "execute example_tool [stored example_a] [] =
     Inl (Exn VectorStoreException
            (vector_search_failed @ search_failed @ ascii ''empty text''))"
  by (simp add: execute_def search_content_def search_content_try_def example_tool_simps
      example_encode_simps wrap_def)

subsection \<open>The claims\<close>

text \<open>
  C1. Storing a record and retrieving it by the returned id does not give the record
  back: the store succeeds and leaves the entry in the index, and the retrieval of that
  id raises a \<open>VectorStoreException\<close> whose message reports that the name \<open>datetime\<close> is
  not defined.
\<close>

theorem store_then_retrieve_raises:
  "store_content example_tool [] example_a = (Inr (item_id example_a), [stored example_a]) \<and>
   retrieve_content example_tool example_fromisoformat [] example_instant [stored example_a]
     (item_id example_a) =
   Inl (Exn VectorStoreException (retrieve_failed @ datetime_undefined))"
proof -
  have ne: "prepare_text_for_embedding example_a \<noteq> []"
    by (simp add: example_texts ascii_def)
  have "store_content example_tool [] example_a = (Inr (item_id example_a), [stored example_a])"
    by (simp add: store_example[OF ne] stored_def)
  with example_retrieve show ?thesis by simp
qed

text \<open>
  C2. If the embedding provider raises on the projected text of a record, storing the
  record fails with the tool's typed error, a \<open>VectorStoreException\<close> whose message is
  the store label followed by the provider's error text; the collection is not called,
  so the index and its count are as before.
\<close>

theorem store_content_embedding_failure:
  assumes "encode t (prepare_text_for_embedding c) = Inl e"
  shows "store_content t s c = (Inl (Exn VectorStoreException (store_failed @ exn_str e)), s) \<and>
         coll_count (collection t) (snd (store_content t s c)) = coll_count (collection t) s"
  using assms by (simp add: store_content_def store_content_try_def wrap_def)

theorem store_content_embedding_failure_witness:
  "encode example_tool (prepare_text_for_embedding example_empty) =
     Inl (Exn ValueError (ascii ''empty text'')) \<and>
   store_content example_tool [stored example_a] example_empty =
     (Inl (Exn VectorStoreException (store_failed @ ascii ''empty text'')),
      [stored example_a]) \<and>
   coll_count (collection example_tool)
     (snd (store_content example_tool [stored example_a] example_empty)) = 1"
proof -
  have h: "encode example_tool (prepare_text_for_embedding example_empty) =
             Inl (Exn ValueError (ascii ''empty text''))"
    by (simp add: example_tool_simps example_texts example_encode_simps)
  show ?thesis
    using h store_content_embedding_failure[OF h, of "[stored example_a]"]
    by (simp add: example_tool_simps index_count_def)
qed

text \<open>
  C3. For every record and every \<open>k \<ge> 1\<close>, a similar-content search that excludes the
  record itself returns at most \<open>k\<close> results, none of which has the record's id: it
  asks the collection for \<open>k + 1\<close> neighbours of the record's projected text, drops the
  record's own id and keeps the first \<open>k\<close> of the rest.
\<close>

theorem search_similar_content_excludes_self:
  assumes "1 \<le> k" and "search_similar_content t s r k True = Inr rs"
  shows "(\<forall>x\<in>set rs. result_id x \<noteq> item_id r) \<and> length rs \<le> nat k \<and>
         (\<exists>emb results ids.
            encode t (prepare_text_for_embedding r) = Inr emb \<and>
            coll_query (collection t) s [emb] (k + 1) None = Inr results \<and>
            py_first (query_ids results) = Inr ids \<and>
            map result_id rs = take (nat k) (filter (\<lambda>d. d \<noteq> item_id r) ids))"
proof -
  from assms(2) obtain emb results ids found where
    emb: "encode t (prepare_text_for_embedding r) = Inr emb" and
    q: "coll_query (collection t) s [emb] (k + 1) None = Inr results" and
    ids: "py_first (query_ids results) = Inr ids" and
    loop: "similar_loop results True (item_id r) (enumerate 0 ids) [] = Inr found" and
    rs: "rs = py_slice_to found k"
    by (auto simp: search_similar_content_def search_similar_content_try_def Let_def
        split: sum.splits)
  from similar_loop_rows[OF loop]
  have "list_all2 (\<lambda>x row. result_row results (fst x) (snd x) = Inr row)
          (filter (\<lambda>x. snd x \<noteq> item_id r) (enumerate 0 ids)) found"
    by simp
  from rows_ids[OF this]
  have found: "map result_id found = filter (\<lambda>d. d \<noteq> item_id r) ids"
    using filter_enumerate_snd[of "\<lambda>d. d \<noteq> item_id r" 0 ids] by simp
  from rs assms(1) have rs': "rs = take (nat k) found"
    by (simp add: py_slice_to_def)
  then have "map result_id rs = take (nat k) (map result_id found)"
    by (simp add: take_map)
  then have m: "map result_id rs = take (nat k) (filter (\<lambda>d. d \<noteq> item_id r) ids)"
    by (simp only: found)
  have "\<forall>x\<in>set rs. result_id x \<noteq> item_id r"
  proof
    fix x assume "x \<in> set rs"
    then have "result_id x \<in> set (map result_id rs)" by simp
    then have "result_id x \<in> set (filter (\<lambda>d. d \<noteq> item_id r) ids)"
      unfolding m by (rule in_set_takeD)
    then show "result_id x \<noteq> item_id r" by simp
  qed
  moreover have "length rs \<le> nat k" using rs' by simp
  ultimately show ?thesis using emb q ids m by blast
qed

theorem search_similar_content_excludes_self_witness:
  "(1::int) \<le> 1 \<and>
   search_similar_content example_tool example_index example_a 1 True =
     Inr [found example_b 0] \<and>
   result_id (found example_b 0) \<noteq> item_id example_a \<and>
   length [found example_b 0] \<le> nat 1"
proof -
  have h1: "(1::int) \<le> 1" by simp
  from search_similar_content_excludes_self[OF h1 example_similar] example_similar
  show ?thesis by simp
qed

text \<open>
  C4, as amended. Deleting never raises and reports a boolean: \<open>True\<close> exactly when the
  collection's delete returns, \<open>False\<close> exactly when it raises; the index is left as
  the collection's delete left it.
\<close>

theorem delete_content_reports_bool:
  "(\<exists>b. fst (delete_content t s cid) = Inr b) \<and>
   ((fst (delete_content t s cid) = Inr True) =
      (\<exists>u. fst (coll_delete (collection t) s [cid]) = Inr u)) \<and>
   ((fst (delete_content t s cid) = Inr False) =
      (\<exists>e. fst (coll_delete (collection t) s [cid]) = Inl e)) \<and>
   snd (delete_content t s cid) = snd (coll_delete (collection t) s [cid])"
  by (cases "coll_delete (collection t) s [cid]"; cases "fst (coll_delete (collection t) s [cid])")
     (auto simp: delete_content_def)

text \<open>
  C4 as stated fails: for an id that is not in the index, the collection's delete
  returns and \<open>delete_content\<close> reports \<open>True\<close>.
\<close>

theorem delete_content_unknown_id_counterexample:
  "map_of [stored example_a] (ascii ''zzz'') = None \<and>
   fst (delete_content example_tool [stored example_a] (ascii ''zzz'')) = Inr True \<and>
   fst (delete_content example_tool [stored example_a] (ascii ''zzz'')) \<noteq> Inr False"
  using example_delete_unknown by (simp add: stored_def example_ids ascii_def)

text \<open>
  C5. Updating a record that is indexed goes through: the index then holds the new
  entry for the id and as many entries as before. But retrieving the id afterwards
  raises a \<open>VectorStoreException\<close>, for the same reason as in C1, and shows no content.
\<close>

theorem update_then_retrieve_raises:
  "update_content example_tool [stored example_a] example_a2 =
     (Inr True, [stored example_a2]) \<and>
   coll_count (collection example_tool) [stored example_a2] =
     coll_count (collection example_tool) [stored example_a] \<and>
   retrieve_content example_tool example_fromisoformat [] example_instant [stored example_a2]
     (item_id example_a2) =
   Inl (Exn VectorStoreException (retrieve_failed @ datetime_undefined))"
proof -
  have "retrieve_content example_tool example_fromisoformat [] example_instant
          [stored example_a2] (item_id example_a2) =
        Inl (Exn VectorStoreException (retrieve_failed @ datetime_undefined))"
    using example_retrieve_item[of "''a''" "''abcde''" "[]"]
    by (simp add: example_a2_def example_item_def)
  with example_update show ?thesis
    by (simp add: example_tool_simps index_count_def)
qed

text \<open>
  C6. If the distances the collection reports for the query are ascending, the results
  of a search are non-increasing in similarity score, for every query text, every
  number of results and every filter.
\<close>

theorem search_content_non_increasing:
  assumes "encode t query = Inr emb"
    and "coll_query (collection t) s [emb] n_results where_filter = Inr results"
    and "\<forall>ds\<in>set (query_distances results). sorted ds"
    and "search_content t s query n_results where_filter = Inr rs"
  shows "sorted_wrt (\<lambda>a b. similarity_score a \<ge> similarity_score b) rs"
proof -
  from assms(1,2,4) obtain ids where
    ids: "py_first (query_ids results) = Inr ids" and
    loop: "search_loop results (enumerate 0 ids) [] = Inr rs"
    by (auto simp: search_content_def search_content_try_def split: sum.splits)
  from search_loop_rows[OF loop]
  have rows: "list_all2 (\<lambda>x row. result_row results (fst x) (snd x) = Inr row)
                (enumerate 0 ids) rs"
    by simp
  show ?thesis
  proof (cases "ids = []")
    case True
    with rows show ?thesis by simp
  next
    case False
    then have "enumerate 0 ids \<noteq> []" by (cases ids) simp_all
    from rows_nonempty_distances[OF rows this] obtain ds where
      ds: "py_first (query_distances results) = Inr ds" by blast
    from rows_scores[OF rows ds]
    have sc: "map similarity_score rs = map (\<lambda>x. 1 - ds ! fst x) (enumerate 0 ids)"
      and bound: "\<forall>x\<in>set (enumerate 0 ids). fst x < length ds"
      by simp_all
    have len: "length ids \<le> length ds"
    proof -
      from False have "(length ids - 1, ids ! (length ids - 1)) \<in> set (enumerate 0 ids)"
        by (simp add: in_set_enumerate_eq)
      with bound have "length ids - 1 < length ds" by fastforce
      then show ?thesis by simp
    qed
    have "map (\<lambda>x. 1 - ds ! fst x) (enumerate 0 ids) =
            map (\<lambda>i. 1 - ds ! i) (map fst (enumerate 0 ids))"
      by (simp only: map_map o_def)
    then have "map (\<lambda>x. 1 - ds ! fst x) (enumerate 0 ids) =
                 map (\<lambda>i. 1 - ds ! i) [0..<length ids]"
      by (simp only: map_fst_enumerate add_0)
    with sc have sc': "map similarity_score rs = map (\<lambda>i. 1 - ds ! i) [0..<length ids]"
      by simp
    from ds assms(3) have "sorted ds" by (auto dest: py_first_set)
    from sorted_wrt_antitone_prefix[OF this len]
    have "sorted_wrt (\<lambda>a b. a \<ge> b) (map similarity_score rs)"
      unfolding sc' .
    then show ?thesis by (simp add: sorted_wrt_map)
  qed
qed

theorem search_content_non_increasing_witness:
  "encode example_tool (ascii ''abc'') = Inr [3] \<and>
   coll_query (collection example_tool) example_index [[3]] 10 None = Inr example_results \<and>
   query_distances example_results = [[0, 1, 4]] \<and> sorted [0, 1, 4 :: real] \<and>
   search_content example_tool example_index (ascii ''abc'') 10 None =
     Inr [found example_a 1, found example_b 0, found example_c (- 3)] \<and>
   sorted_wrt (\<lambda>a b. similarity_score a \<ge> similarity_score b)
     [found example_a 1, found example_b 0, found example_c (- 3)]"
proof -
  have h1: "encode example_tool (ascii ''abc'') = Inr [3]"
    by (simp add: example_tool_simps example_encode_simps)
  have h2: "coll_query (collection example_tool) example_index [[3]] 10 None =
              Inr example_results"
    by (simp add: example_tool_simps example_query)
  have d: "query_distances example_results = [[0, 1, 4]]"
    by (simp add: example_results_def)
  have h3: "\<forall>ds\<in>set (query_distances example_results). sorted ds"
    by (simp add: d)
  from search_content_non_increasing[OF h1 h2 h3 example_search] h1 h2 d example_search
  show ?thesis by simp
qed

text \<open>
  C7, as amended. Every similarity score that a search or a similar-content search
  returns is \<open>1 - d\<close> for the distance \<open>d\<close> the collection reports for that very
  result, the one at the result's position in the collection's answer; it lies in
  \<open>[0, 1]\<close> exactly when that distance does. The results of a search are the
  collection's answer position by position; those of a similar-content search are the
  positions that remain after the record's own id is dropped, cut to the number asked
  for.
\<close>

theorem similarity_score_from_distance:
  "(encode t query = Inr emb \<longrightarrow>
    coll_query (collection t) s [emb] n w = Inr results \<longrightarrow>
    search_content t s query n w = Inr rs \<longrightarrow>
      (\<exists>ids. py_first (query_ids results) = Inr ids \<and>
             list_all2 (scored_at results) (enumerate 0 ids) rs)) \<and>
   (encode t (prepare_text_for_embedding c) = Inr emb' \<longrightarrow>
    coll_query (collection t) s [emb'] (n' + (if b then 1 else 0)) None = Inr results' \<longrightarrow>
    search_similar_content t s c n' b = Inr rs' \<longrightarrow>
      (\<exists>ids. py_first (query_ids results') = Inr ids \<and>
             list_all2 (scored_at results')
               (py_slice_to (filter (\<lambda>x. \<not> (b \<and> snd x = item_id c)) (enumerate 0 ids)) n')
               rs'))"
proof (intro conjI impI)
  assume "encode t query = Inr emb" "coll_query (collection t) s [emb] n w = Inr results"
    "search_content t s query n w = Inr rs"
  then obtain ids where ids: "py_first (query_ids results) = Inr ids" and
    loop: "search_loop results (enumerate 0 ids) [] = Inr rs"
    by (auto simp: search_content_def search_content_try_def split: sum.splits)
  from search_loop_rows[OF loop]
  have "list_all2 (\<lambda>x row. result_row results (fst x) (snd x) = Inr row) (enumerate 0 ids) rs"
    by simp
  then have "list_all2 (scored_at results) (enumerate 0 ids) rs" by (rule rows_scored_at)
  with ids show "\<exists>ids. py_first (query_ids results) = Inr ids \<and>
             list_all2 (scored_at results) (enumerate 0 ids) rs"
    by blast
next
  assume "encode t (prepare_text_for_embedding c) = Inr emb'"
    "coll_query (collection t) s [emb'] (n' + (if b then 1 else 0)) None = Inr results'"
    "search_similar_content t s c n' b = Inr rs'"
  then obtain ids found where ids: "py_first (query_ids results') = Inr ids" and
    loop: "similar_loop results' b (item_id c) (enumerate 0 ids) [] = Inr found" and
    rs: "rs' = py_slice_to found n'"
    by (auto simp: search_similar_content_def search_similar_content_try_def Let_def
        split: sum.splits)
  from similar_loop_rows[OF loop]
  have "list_all2 (\<lambda>x row. result_row results' (fst x) (snd x) = Inr row)
          (filter (\<lambda>x. \<not> (b \<and> snd x = item_id c)) (enumerate 0 ids)) found"
    by simp
  then have "list_all2 (scored_at results')
          (filter (\<lambda>x. \<not> (b \<and> snd x = item_id c)) (enumerate 0 ids)) found"
    by (rule rows_scored_at)
  then have "list_all2 (scored_at results')
          (py_slice_to (filter (\<lambda>x. \<not> (b \<and> snd x = item_id c)) (enumerate 0 ids)) n')
          (py_slice_to found n')"
    by (rule list_all2_py_slice_to)
  with ids rs show "\<exists>ids. py_first (query_ids results') = Inr ids \<and>
             list_all2 (scored_at results')
               (py_slice_to (filter (\<lambda>x. \<not> (b \<and> snd x = item_id c)) (enumerate 0 ids)) n')
               rs'"
    by blast
qed

theorem similarity_score_from_distance_witness:
  "encode example_tool (ascii ''abc'') = Inr [3] \<and>
   coll_query (collection example_tool) example_index [[3]] 10 None = Inr example_results \<and>
   search_content example_tool example_index (ascii ''abc'') 10 None =
     Inr [found example_a 1, found example_b 0, found example_c (- 3)] \<and>
   encode example_tool (prepare_text_for_embedding example_a) = Inr [3] \<and>
   coll_query (collection example_tool) example_index [[3]] (1 + (if True then 1 else 0)) None =
     Inr example_results2 \<and>
   search_similar_content example_tool example_index example_a 1 True =
     Inr [found example_b 0] \<and>
   query_distances example_results = [[0, 1, 4]] \<and>
   scored_at example_results (0, ascii ''a'') (found example_a 1) \<and>
   scored_at example_results (1, ascii ''b'') (found example_b 0) \<and>
   scored_at example_results (2, ascii ''c'') (found example_c (- 3)) \<and>
   query_distances example_results2 = [[0, 1]] \<and>
   scored_at example_results2 (1, ascii ''b'') (found example_b 0)"
proof -
  have h1: "encode example_tool (ascii ''abc'') = Inr [3]"
    by (simp add: example_tool_simps example_encode_simps)
  have h2: "coll_query (collection example_tool) example_index [[3]] 10 None =
              Inr example_results"
    by (simp add: example_tool_simps example_query)
  have h4: "encode example_tool (prepare_text_for_embedding example_a) = Inr [3]"
    by (simp add: example_tool_simps example_texts example_encode_simps)
  have h5: "coll_query (collection example_tool) example_index [[3]]
              (1 + (if True then 1 else 0)) None = Inr example_results2"
    by (simp add: example_tool_simps example_query2)
  have d: "query_distances example_results = [[0, 1, 4]]"
    "query_distances example_results2 = [[0, 1]]"
    by (simp_all add: example_results_def example_results2_def)
  have i: "py_first (query_ids example_results) = Inr [ascii ''a'', ascii ''b'', ascii ''c'']"
    "py_first (query_ids example_results2) = Inr [ascii ''a'', ascii ''b'']"
    by (simp_all add: example_results_def example_results2_def py_first_def)
  have ne: "ascii ''b'' \<noteq> ascii ''a''" by (simp add: ascii_def)
  from similarity_score_from_distance[of example_tool "ascii ''abc''" "[3]" example_index 10
      None example_results "[found example_a 1, found example_b 0, found example_c (- 3)]"
      example_a "[3]" 1 True example_results2 "[found example_b 0]"]
    h1 h2 example_search h4 h5 example_similar
  have "list_all2 (scored_at example_results)
          (enumerate 0 [ascii ''a'', ascii ''b'', ascii ''c''])
          [found example_a 1, found example_b 0, found example_c (- 3)]"
    and "list_all2 (scored_at example_results2)
          (py_slice_to (filter (\<lambda>x. \<not> (True \<and> snd x = item_id example_a))
             (enumerate 0 [ascii ''a'', ascii ''b''])) 1)
          [found example_b 0]"
    by (simp_all add: i)
  then have "scored_at example_results (0, ascii ''a'') (found example_a 1) \<and>
      scored_at example_results (1, ascii ''b'') (found example_b 0) \<and>
      scored_at example_results (2, ascii ''c'') (found example_c (- 3))"
    and "scored_at example_results2 (1, ascii ''b'') (found example_b 0)"
    by (simp_all add: enumerate_eq_zip py_slice_to_def example_ids ne numeral_2_eq_2)
  with h1 h2 example_search h4 h5 example_similar d show ?thesis
    by (simp add: numeral_2_eq_2)
qed

text \<open>
  C7 as stated fails: with the squared Euclidean distance the third result of the
  example search is at distance 4, and its similarity score is \<open>- 3\<close>.
\<close>

theorem similarity_score_negative_counterexample:
  "search_content example_tool example_index (ascii ''abc'') 10 None =
     Inr [found example_a 1, found example_b 0, found example_c (- 3)] \<and>
   similarity_score (found example_c (- 3)) < 0"
  using example_search by (simp add: found_def)

text \<open>
  C8, as amended. A record constructed with no explicit quality level has the level of
  the bucket of its quality score; a later assignment to the quality score leaves the
  level as it was.
\<close>

theorem quality_level_at_construction:
  assumes "ContentItem_init uuid now kw = Inr item" and "kw_quality_level kw = None"
  shows "quality_level item = Some (quality_bucket (quality_score item)) \<and>
         quality_level (assign_quality_score item v) = quality_level item"
  using assms
  by (auto simp: ContentItem_init_def Let_def set_quality_level_bucket assign_quality_score_def
      split: option.splits)

theorem quality_level_at_construction_witness:
  "ContentItem_init [] example_instant (example_kwargs ''a'' ''abc'' []) = Inr example_a \<and>
   kw_quality_level (example_kwargs ''a'' ''abc'' []) = None \<and>
   quality_level example_a = Some (quality_bucket (quality_score example_a)) \<and>
   quality_level (assign_quality_score example_a 0.1) = quality_level example_a"
proof -
  have h: "kw_quality_level (example_kwargs ''a'' ''abc'' []) = None"
    by (simp add: example_kwargs_def)
  from quality_level_at_construction[OF example_init h, of "0.1"] example_init h
  show ?thesis by simp
qed

text \<open>
  C8 as stated fails: after the quality score of a record constructed with score 0.85
  is set to 0.1, the level is still \<open>HIGH\<close>, while the bucket of 0.1 is \<open>VERY_LOW\<close>.
\<close>

theorem quality_level_stale_counterexample:
  "ContentItem_init [] example_instant (example_kwargs ''a'' ''abc'' []) = Inr example_a \<and>
   quality_level (assign_quality_score example_a 0.1) = Some HIGH \<and>
   quality_bucket (quality_score (assign_quality_score example_a 0.1)) = VERY_LOW"
  using example_init
  by (simp add: assign_quality_score_def example_a_def example_item_def quality_bucket_def)

text \<open>
  C9. The projected text of a record is: the title; then the summary if it is present
  and not empty; then the first 1000 characters of the body if the body is not empty;
  then the authors line if there are authors; then the tags line if there are tags;
  joined with newlines, a part that is empty or absent contributing no line. So a
  record with all five parts projects to five lines, its authors and its tags separated
  by commas, and a record whose summary and body are empty and that has no authors
  projects to its title and its tags line alone.
\<close>

theorem prepare_text_for_embedding_spec:
  "prepare_text_for_embedding c = project_spec c \<and>
   prepare_text_for_embedding example_full =
     ascii ''Title'' @ [0x0A] @ ascii ''Sum'' @ [0x0A] @ ascii ''Body'' @ [0x0A] @
     [0x4F5C, 0x8005, 0x3A, 0x20] @ ascii ''Ann, Bob'' @ [0x0A] @
     [0x6807, 0x7B7E, 0x3A, 0x20] @ ascii ''ml, nlp, ai'' \<and>
   prepare_text_for_embedding example_sparse =
     ascii ''Title'' @ [0x0A] @ [0x6807, 0x7B7E, 0x3A, 0x20] @ ascii ''x''"
proof -
  have "prepare_text_for_embedding c = project_spec c"
    by (simp add: prepare_text_for_embedding_def project_spec_def summary_part_def
        body_part_def authors_part_def tags_part_def py_slice_to_def Let_def
        py_join_joined_with newline_def authors_label_def tags_label_def ascii_def
        split: option.split)
  with example_full_text example_sparse_text show ?thesis by simp
qed

text \<open>
  C10. Running a tool never raises: it returns what \<open>_execute\<close> returned, and when
  \<open>_execute\<close> raised, a result with \<open>success = False\<close> whose error is the exception's
  message.
\<close>

theorem run_never_raises:
  "(\<exists>r. run name ex q = Inr r) \<and>
   (\<forall>r. ex q = Inr r \<longrightarrow> run name ex q = Inr r) \<and>
   (\<forall>e. ex q = Inl e \<longrightarrow>
        (\<exists>r. run name ex q = Inr r \<and> success r = False \<and> error r = Some (exn_str e)))"
  by (cases "ex q") (simp_all add: run_def)

theorem run_never_raises_witness:
  "execute example_tool [stored example_a] (ascii ''abc'') =
     Inr \<lparr> success = True, data = Some [found example_a 1], error = None,
           tool_metadata = [(ascii ''query'', PStr (ascii ''abc'')),
                            (ascii ''total_results'', PInt 1),
                            (ascii ''collection_size'', PInt 1)],
           execution_time = None \<rparr> \<and>
   run (ascii ''chroma_vector_store'') (execute example_tool [stored example_a])
       (ascii ''abc'') =
     execute example_tool [stored example_a] (ascii ''abc'') \<and>
   execute example_tool [stored example_a] [] =
     Inl (Exn VectorStoreException
            (vector_search_failed @ search_failed @ ascii ''empty text'')) \<and>
   run (ascii ''chroma_vector_store'') (execute example_tool [stored example_a]) [] =
     Inr \<lparr> success = False, data = None,
           error = Some (vector_search_failed @ search_failed @ ascii ''empty text''),
           tool_metadata = [(ascii ''tool_name'', PStr (ascii ''chroma_vector_store'')),
                            (ascii ''query'', PStr [])],
           execution_time = None \<rparr>"
proof -
  from run_never_raises[of "ascii ''chroma_vector_store''"
      "execute example_tool [stored example_a]" "ascii ''abc''"] example_execute
  have ok: "run (ascii ''chroma_vector_store'') (execute example_tool [stored example_a])
              (ascii ''abc'') = execute example_tool [stored example_a] (ascii ''abc'')"
    by simp
  from run_never_raises[of "ascii ''chroma_vector_store''"
      "execute example_tool [stored example_a]" "[]"] example_execute_raises
  obtain r where r: "run (ascii ''chroma_vector_store'')
        (execute example_tool [stored example_a]) [] = Inr r"
    and "success r = False"
    and "error r = Some (vector_search_failed @ search_failed @ ascii ''empty text'')"
    by auto
  then have "run (ascii ''chroma_vector_store'') (execute example_tool [stored example_a]) [] =
     Inr \<lparr> success = False, data = None,
           error = Some (vector_search_failed @ search_failed @ ascii ''empty text''),
           tool_metadata = [(ascii ''tool_name'', PStr (ascii ''chroma_vector_store'')),
                            (ascii ''query'', PStr [])],
           execution_time = None \<rparr>"
    using example_execute_raises by (simp add: run_def)
  with ok example_execute example_execute_raises show ?thesis by simp
qed

end
